theory Spec2Isabelle
  imports Main "HOL-Library.AList" "HOL-Library.Multiset" "HOL-Library.Sublist"
begin

section \<open>Python values and the library functions the program calls\<close>

text \<open>
  Every function of \<^verbatim>\<open>mystudybuddy_mlv.py\<close> is embedded as a HOL function that returns
  \<open>exn + 'a\<close>: \<open>Inl e\<close> when the Python function lets the exception \<open>e\<close> escape, \<open>Inr v\<close>
  when it returns \<open>v\<close>. What a function reads from or writes to the outside (the random
  generator, the console, the files and the loaded models) is passed in and returned.

  A Python \<^verbatim>\<open>str\<close> is a HOL \<open>string\<close>, one \<open>char\<close> per character. The classes of
  characters (white space, line boundaries, letter case) are those Python gives the ASCII
  characters, so the embedding is that of the program on ASCII text.
\<close>

datatype exn = ValueError | IndexError | EOFError | LibraryError string

subsection \<open>str: strip, split, splitlines, lower, upper, in\<close>

definition isspace :: "char \<Rightarrow> bool" where
  \<comment> \<open>\<^verbatim>\<open>str.isspace\<close> on ASCII: TAB, LF, VT, FF, CR, FS, GS, RS, US and the space.\<close>
  "isspace c = (c \<in> set [CHR 0x09, CHR 0x0A, CHR 0x0B, CHR 0x0C, CHR 0x0D,
                          CHR 0x1C, CHR 0x1D, CHR 0x1E, CHR 0x1F, CHR 0x20])"

definition strip :: "string \<Rightarrow> string" where
  "strip s = rev (dropWhile isspace (rev (dropWhile isspace s)))"

fun split_ws_from :: "string \<Rightarrow> string \<Rightarrow> string list" where
  "split_ws_from cur [] = (if cur = [] then [] else [cur])"
| "split_ws_from cur (c # cs) =
     (if isspace c then (if cur = [] then split_ws_from [] cs else cur # split_ws_from [] cs)
      else split_ws_from (cur @ [c]) cs)"

definition split_ws :: "string \<Rightarrow> string list" where
  \<comment> \<open>\<^verbatim>\<open>s.split()\<close>: the maximal runs of characters that are not white space.\<close>
  "split_ws s = split_ws_from [] s"

function split_sep :: "string \<Rightarrow> string \<Rightarrow> string \<Rightarrow> string list" where
  "split_sep sep cur [] = [cur]"
| "split_sep sep cur (c # cs) =
     (if sep \<noteq> [] \<and> take (length sep) (c # cs) = sep
      then cur # split_sep sep [] (drop (length sep) (c # cs))
      else split_sep sep (cur @ [c]) cs)"
  by pat_completeness auto
termination
  by (relation "measure (\<lambda>(sep, cur, s). length s)") auto

definition split_on :: "string \<Rightarrow> string \<Rightarrow> string list" where
  \<comment> \<open>\<^verbatim>\<open>s.split(sep)\<close> for a separator that is not empty: the pieces between the
      occurrences of \<open>sep\<close>, found from the left; the list is never empty.\<close>
  "split_on sep s = split_sep sep [] s"

definition linebreak :: "char \<Rightarrow> bool" where
  \<comment> \<open>The ASCII line boundaries of \<^verbatim>\<open>str.splitlines\<close>: LF, VT, FF, CR, FS, GS, RS.\<close>
  "linebreak c = (c \<in> set [CHR 0x0A, CHR 0x0B, CHR 0x0C, CHR 0x0D, CHR 0x1C, CHR 0x1D, CHR 0x1E])"

fun splitlines_from :: "string \<Rightarrow> string \<Rightarrow> string list" where
  "splitlines_from cur [] = (if cur = [] then [] else [cur])"
| "splitlines_from cur [c] = (if linebreak c then [cur] else [cur @ [c]])"
| "splitlines_from cur (c # d # cs) =
     (if c = CHR 0x0D \<and> d = CHR 0x0A then cur # splitlines_from [] cs
      else if linebreak c then cur # splitlines_from [] (d # cs)
      else splitlines_from (cur @ [c]) (d # cs))"

definition splitlines :: "string \<Rightarrow> string list" where
  "splitlines s = splitlines_from [] s"

fun contains :: "string \<Rightarrow> string \<Rightarrow> bool" where
  \<comment> \<open>\<^verbatim>\<open>sub in s\<close>\<close>
  "contains sub [] = (sub = [])"
| "contains sub (c # cs) = (take (length sub) (c # cs) = sub \<or> contains sub cs)"

definition lower_char :: "char \<Rightarrow> char" where
  "lower_char c =
     (case map_of (zip ''ABCDEFGHIJKLMNOPQRSTUVWXYZ'' ''abcdefghijklmnopqrstuvwxyz'') c of
        Some d \<Rightarrow> d | None \<Rightarrow> c)"

definition upper_char :: "char \<Rightarrow> char" where
  "upper_char c =
     (case map_of (zip ''abcdefghijklmnopqrstuvwxyz'' ''ABCDEFGHIJKLMNOPQRSTUVWXYZ'') c of
        Some d \<Rightarrow> d | None \<Rightarrow> c)"

definition lower :: "string \<Rightarrow> string" where
  "lower s = map lower_char s"

definition upper :: "string \<Rightarrow> string" where
  "upper s = map upper_char s"

definition join :: "string \<Rightarrow> string list \<Rightarrow> string" where
  \<comment> \<open>\<^verbatim>\<open>sep.join(xs)\<close>\<close>
  "join sep xs = (case xs of [] \<Rightarrow> [] | y # ys \<Rightarrow> y @ concat (map (\<lambda>z. sep @ z) ys))"

subsection \<open>dict.fromkeys\<close>

text \<open>
  A Python dict keeps its keys in the order of their first insertion; storing under a key
  that is present leaves the key where it is. \<^verbatim>\<open>list(dict.fromkeys(xs))\<close> inserts the
  elements of \<open>xs\<close> from the left and lists the keys.
\<close>

fun fromkeys_into :: "'a list \<Rightarrow> 'a list \<Rightarrow> 'a list" where
  "fromkeys_into keys [] = keys"
| "fromkeys_into keys (x # xs) = fromkeys_into (if x \<in> set keys then keys else keys @ [x]) xs"

definition fromkeys :: "'a list \<Rightarrow> 'a list" where
  "fromkeys xs = fromkeys_into [] xs"

subsection \<open>The module random\<close>

text \<open>
  The state of the random generator is the list of the raw numbers it will hand out, so that a
  theorem for every such list holds for every outcome of the randomness (a draw from the
  exhausted list is taken as 0). \<^verbatim>\<open>random\<close> reduces each raw number to the range asked for.
\<close>

type_synonym rng = "nat list"

definition randbelow :: "nat \<Rightarrow> rng \<Rightarrow> nat \<times> rng" where
  "randbelow n r = (case r of [] \<Rightarrow> (0, []) | x # xs \<Rightarrow> (x mod n, xs))"

definition choice :: "'a list \<Rightarrow> rng \<Rightarrow> (exn + 'a) \<times> rng" where
  \<comment> \<open>\<^verbatim>\<open>random.choice(seq)\<close>: IndexError on an empty sequence.\<close>
  "choice xs r =
     (if xs = [] then (Inl IndexError, r)
      else (case randbelow (length xs) r of (i, r') \<Rightarrow> (Inr (xs ! i), r')))"

fun sample_pool :: "'a list \<Rightarrow> nat \<Rightarrow> rng \<Rightarrow> 'a list \<times> rng" where
  "sample_pool pool 0 r = ([], r)"
| "sample_pool pool (Suc k) r =
     (case randbelow (length pool) r of (j, r') \<Rightarrow>
        (case sample_pool (butlast (pool[j := last pool])) k r' of (rest, r'') \<Rightarrow>
           (pool ! j # rest, r'')))"

definition sample :: "'a list \<Rightarrow> nat \<Rightarrow> rng \<Rightarrow> (exn + 'a list) \<times> rng" where
  \<comment> \<open>\<^verbatim>\<open>random.sample(population, k)\<close>: ValueError when the sample is larger than the
      population; otherwise \<open>k\<close> times an element is picked from the pool of those left, and
      the last element of the pool moves into its place.\<close>
  "sample xs k r =
     (if length xs < k then (Inl ValueError, r)
      else (case sample_pool xs k r of (ys, r') \<Rightarrow> (Inr ys, r')))"

fun shuffle_from :: "nat \<Rightarrow> 'a list \<Rightarrow> rng \<Rightarrow> 'a list \<times> rng" where
  "shuffle_from 0 xs r = (xs, r)"
| "shuffle_from (Suc i) xs r =
     (case randbelow (Suc (Suc i)) r of (j, r') \<Rightarrow>
        shuffle_from i (xs[Suc i := xs ! j, j := xs ! Suc i]) r')"

definition shuffle :: "'a list \<Rightarrow> rng \<Rightarrow> 'a list \<times> rng" where
  \<comment> \<open>\<^verbatim>\<open>random.shuffle(x)\<close>: for \<open>i\<close> from the last index down to 1, the elements at
      \<open>i\<close> and at a random \<open>j \<le> i\<close> change places.\<close>
  "shuffle xs r = shuffle_from (length xs - 1) xs r"

section \<open>The loaded models\<close>

text \<open>
  \<open>nlp\<close> is the spaCy pipeline reduced to what the program reads of it: the texts of the
  entities of a document, or the exception the call raises. \<open>text_generator\<close> is the
  text2text pipeline: the generated text for a prompt, or an exception; it samples, so it
  takes and returns the random state. Both are \<open>None\<close> when loading either of them failed.
\<close>

type_synonym ner_model = "string \<Rightarrow> exn + string list"
type_synonym gen_model = "string \<Rightarrow> rng \<Rightarrow> (exn + string) \<times> rng"

definition load_models ::
    "exn + ner_model \<Rightarrow> exn + gen_model \<Rightarrow> ner_model option \<times> gen_model option" where
  "load_models spacy_load pipeline =
     (case spacy_load of
        Inl e \<Rightarrow> (None, None)
      | Inr n \<Rightarrow> (case pipeline of Inl e \<Rightarrow> (None, None) | Inr g \<Rightarrow> (Some n, Some g)))"

section \<open>extract_entities\<close>

definition collect_entities :: "ner_model option \<Rightarrow> string \<Rightarrow> rng \<Rightarrow> (exn + string list) \<times> rng" where
  \<comment> \<open>Lines 65 to 71: the list \<open>entities\<close> as it stands before the \<^verbatim>\<open>return\<close>.\<close>
  "collect_entities nlp text r =
     (case (case nlp of None \<Rightarrow> Inr [] | Some f \<Rightarrow> f text) of
        Inl e \<Rightarrow> (Inl e, r)
      | Inr entities \<Rightarrow>
          if length entities < 5 then
            (let words = filter (\<lambda>w. 3 < length w) (split_ws text) in
             case sample words (min 10 (length words)) r of
               (Inl e, r') \<Rightarrow> (Inl e, r')
             | (Inr padding, r') \<Rightarrow> (Inr (entities @ padding), r'))
          else (Inr entities, r))"

definition extract_entities :: "ner_model option \<Rightarrow> string \<Rightarrow> rng \<Rightarrow> (exn + string list) \<times> rng" where
  "extract_entities nlp text r =
     (case collect_entities nlp text r of
        (Inl e, r') \<Rightarrow> (Inl e, r')
      | (Inr entities, r') \<Rightarrow> (Inr (fromkeys entities), r'))"

text \<open>
  The wording of the specification for the deduplication: the elements of a list at the
  positions where they occur for the first time, in the order of these positions.
\<close>

definition first_occurrences :: "'a list \<Rightarrow> 'a list" where
  "first_occurrences xs =
     map (\<lambda>i. xs ! i) (filter (\<lambda>i. xs ! i \<notin> set (take i xs)) [0..<length xs])"

text \<open>The elements of a list that are not in \<open>S\<close> and not earlier in the list (used in the proofs).\<close>

fun keep_new :: "'a set \<Rightarrow> 'a list \<Rightarrow> 'a list" where
  "keep_new S [] = []"
| "keep_new S (x # xs) = (if x \<in> S then keep_new S xs else x # keep_new (insert x S) xs)"

section \<open>generate_quiz_question\<close>

text \<open>The dict the function returns, with its three keys.\<close>

record quiz_question =
  question :: string
  options :: "string list"
  answer :: string

definition placeholder :: "string \<Rightarrow> quiz_question" where
  \<comment> \<open>The dict of lines 79 and 110.\<close>
  "placeholder entity =
     \<lparr>question = entity, options = [''A) Yes'', ''B) No'', ''C) Maybe'', ''D) N/A''], answer = ''A''\<rparr>"

definition prompt :: "string \<Rightarrow> string \<Rightarrow> string" where
  "prompt entity material =
     [CHR 0x0A] @ ''Generate a meaningful multiple-choice question from this study material:''
     @ [CHR 0x0A] @ ''Material: '' @ material
     @ [CHR 0x0A] @ ''Focus on this entity: '' @ entity
     @ [CHR 0x0A] @ ''Provide one correct answer and three plausible distractors.''
     @ [CHR 0x0A] @ ''Format:''
     @ [CHR 0x0A] @ ''Question: ...''
     @ [CHR 0x0A] @ ''Answer: ...''
     @ [CHR 0x0A] @ ''Distractors: ...'' @ [CHR 0x0A]"

definition after_marker :: "string \<Rightarrow> string list \<Rightarrow> string \<Rightarrow> string" where
  \<comment> \<open>\<^verbatim>\<open>next((l.split(marker)[-1].strip() for l in lines if marker in l), dflt)\<close>\<close>
  "after_marker marker lines dflt =
     (case filter (contains marker) lines of
        [] \<Rightarrow> dflt
      | l # _ \<Rightarrow> strip (last (split_on marker l)))"

function pad_distractors ::
    "string list \<Rightarrow> string \<Rightarrow> string \<Rightarrow> rng \<Rightarrow> (exn + string list) \<times> rng" where
  \<comment> \<open>The loop of lines 98 and 99.\<close>
  "pad_distractors distractors material ans r =
     (if length distractors < 3 then
        (case choice (filter (\<lambda>w. lower w \<noteq> lower ans) (split_ws material)) r of
           (Inl e, r') \<Rightarrow> (Inl e, r')
         | (Inr w, r') \<Rightarrow> pad_distractors (distractors @ [w]) material ans r')
      else (Inr distractors, r))"
  by pat_completeness auto
termination
  by (relation "measure (\<lambda>(distractors, material, ans, r). 3 - length distractors)") auto

declare pad_distractors.simps [simp del]

fun index_of :: "'a \<Rightarrow> 'a list \<Rightarrow> exn + nat" where
  \<comment> \<open>\<^verbatim>\<open>xs.index(x)\<close>: the first position of \<open>x\<close>, ValueError when there is none.\<close>
  "index_of x [] = Inl ValueError"
| "index_of x (y # ys) =
     (if x = y then Inr 0 else (case index_of x ys of Inl e \<Rightarrow> Inl e | Inr i \<Rightarrow> Inr (Suc i)))"

definition letters :: "string list" where
  "letters = [''A'', ''B'', ''C'', ''D'']"

definition question_from_model ::
    "gen_model \<Rightarrow> string \<Rightarrow> string \<Rightarrow> rng \<Rightarrow> (exn + quiz_question) \<times> rng" where
  \<comment> \<open>The body of the \<^verbatim>\<open>try\<close>, lines 92 to 108.\<close>
  "question_from_model g entity material r =
     (case g (prompt entity material) r of
        (Inl e, r1) \<Rightarrow> (Inl e, r1)
      | (Inr gen, r1) \<Rightarrow>
          (let lines = map strip (filter (\<lambda>l. strip l \<noteq> []) (splitlines gen));
               q = after_marker ''Question:'' lines entity;
               ans = after_marker ''Answer:'' lines entity;
               distractors_line = after_marker ''Distractors:'' lines [];
               distractors = map strip (filter (\<lambda>d. strip d \<noteq> []) (split_on '','' distractors_line))
           in case pad_distractors distractors material ans r1 of
                (Inl e, r2) \<Rightarrow> (Inl e, r2)
              | (Inr padded, r2) \<Rightarrow>
                  (case shuffle (ans # take 3 padded) r2 of
                     (all_options, r3) \<Rightarrow>
                       (case index_of ans all_options of
                          Inl e \<Rightarrow> (Inl e, r3)
                        | Inr k \<Rightarrow>
                            (Inr \<lparr>question = q,
                                  options = map (\<lambda>i. letters ! i @ '') '' @ all_options ! i) [0..<4],
                                  answer = letters ! k\<rparr>, r3)))))"

definition generate_quiz_question ::
    "gen_model option \<Rightarrow> string \<Rightarrow> string \<Rightarrow> rng \<Rightarrow> (exn + quiz_question) \<times> rng" where
  "generate_quiz_question text_generator entity material r =
     (case text_generator of
        None \<Rightarrow> (Inr (placeholder entity), r)
      | Some g \<Rightarrow>
          (case question_from_model g entity material r of
             (Inl e, r') \<Rightarrow> (Inr (placeholder entity), r')
           | (Inr q, r') \<Rightarrow> (Inr q, r')))"

section \<open>build_knowledge_graph\<close>

text \<open>
  The dict \<open>kg\<close> is the list of its items in insertion order; \<open>AList.update\<close> stores under
  a key as a Python dict does (in place when the key is present, at the end otherwise).
\<close>

type_synonym knowledge_graph = "(string \<times> string list) list"

fun build_knowledge_graph_loop ::
    "knowledge_graph \<Rightarrow> string list \<Rightarrow> string list \<Rightarrow> rng \<Rightarrow> (exn + knowledge_graph) \<times> rng" where
  \<comment> \<open>The loop of lines 117 to 119: \<open>entities\<close> is the whole list, the third argument the
      elements still to come.\<close>
  "build_knowledge_graph_loop kg entities [] r = (Inr kg, r)"
| "build_knowledge_graph_loop kg entities (ent # rest) r =
     (case sample (filter (\<lambda>e. e \<noteq> ent) entities) (min 3 (length entities - 1)) r of
        (Inl e, r') \<Rightarrow> (Inl e, r')
      | (Inr related, r') \<Rightarrow>
          build_knowledge_graph_loop (AList.update ent related kg) entities rest r')"

definition build_knowledge_graph :: "string list \<Rightarrow> rng \<Rightarrow> (exn + knowledge_graph) \<times> rng" where
  "build_knowledge_graph entities r = build_knowledge_graph_loop [] entities entities r"

section \<open>extract_text_from_file\<close>

text \<open>
  The files and the parsing libraries, reduced to what the function reads of them. Every
  call of a library either returns or raises; leaving a \<^verbatim>\<open>with\<close> block is taken not to
  raise.
\<close>

datatype image = Image (image_to_string: "exn + string")

datatype page = Page (extract_text: "exn + string option") (to_image: "exn + image")

datatype pdf = Pdf (pages: "page list")

datatype textfile = TextFile (read: "exn + string")

datatype docx = Docx (paragraphs: "string list")

datatype shape = Shape (shape_text: "string option")

datatype pptx = Pptx (slides: "shape list list")

record library =
  path_exists :: "string \<Rightarrow> bool"
  open_file :: "string \<Rightarrow> exn + textfile"
  Document :: "string \<Rightarrow> exn + docx"
  pdfplumber_open :: "string \<Rightarrow> exn + pdf"
  Presentation :: "string \<Rightarrow> exn + pptx"
  Image_open :: "string \<Rightarrow> exn + image"

text \<open>What the program prints, one constructor for each \<^verbatim>\<open>print\<close> and \<^verbatim>\<open>input\<close> prompt.\<close>

datatype printed =
    CouldNotRead string exn
  | Title | AskChoice | AskText | AskPath | FileNotFound | NoTextRead | InvalidChoice
  | Generating | QuizStarted
  | QuestionLine nat string | OptionLine string | AskAnswer
  | Correct | Incorrect string
  | QuizFinished | GraphTitle | GraphLine string "string list"

definition splitext_ext :: "string \<Rightarrow> string" where
  \<comment> \<open>\<^verbatim>\<open>os.path.splitext(p)[1]\<close> (POSIX): from the last dot of the last path component on,
      when a character other than a dot stands before it in that component; else empty.\<close>
  "splitext_ext p =
     (let base = rev (takeWhile (\<lambda>c. c \<noteq> CHR ''/'') (rev p)) in
      case dropWhile (\<lambda>c. c \<noteq> CHR ''.'') (rev base) of
        [] \<Rightarrow> []
      | dot # stem \<Rightarrow>
          if list_ex (\<lambda>c. c \<noteq> CHR ''.'') stem
          then CHR ''.'' # rev (takeWhile (\<lambda>c. c \<noteq> CHR ''.'') (rev base))
          else [])"

definition page_text :: "page \<Rightarrow> exn + string" where
  \<comment> \<open>Lines 40 to 43: the text of a page, by OCR when the page has no text layer.\<close>
  "page_text p =
     (case extract_text p of
        Inl e \<Rightarrow> Inl e
      | Inr (Some (c # cs)) \<Rightarrow> Inr (c # cs)
      | Inr _ \<Rightarrow> (case to_image p of Inl e \<Rightarrow> Inl e | Inr img \<Rightarrow> image_to_string img))"

fun pages_text :: "page list \<Rightarrow> exn + string list" where
  \<comment> \<open>The loop of lines 39 to 44.\<close>
  "pages_text [] = Inr []"
| "pages_text (p # ps) =
     (case page_text p of
        Inl e \<Rightarrow> Inl e
      | Inr t \<Rightarrow> (case pages_text ps of Inl e \<Rightarrow> Inl e | Inr ts \<Rightarrow> Inr (t # ts)))"

definition slides_text :: "shape list list \<Rightarrow> string list" where
  \<comment> \<open>The loops of lines 49 to 52.\<close>
  "slides_text ss =
     concat (map (\<lambda>slide. concat (map (\<lambda>s. case shape_text s of None \<Rightarrow> [] | Some t \<Rightarrow> [t]) slide)) ss)"

definition decode :: "library \<Rightarrow> string \<Rightarrow> string \<Rightarrow> exn + string option" where
  \<comment> \<open>The body of the \<^verbatim>\<open>try\<close>, lines 30 to 56: \<open>Inr (Some t)\<close> when a branch assigns \<open>t\<close> to
      \<open>text\<close>, \<open>Inr None\<close> when no branch is taken, \<open>Inl e\<close> when a call raises \<open>e\<close> (each
      branch assigns in its last statement).\<close>
  "decode lib ext filepath =
     (if ext \<in> set [''.txt'', ''.java''] then
        (case open_file lib filepath of
           Inl e \<Rightarrow> Inl e
         | Inr f \<Rightarrow> (case read f of Inl e \<Rightarrow> Inl e | Inr t \<Rightarrow> Inr (Some t)))
      else if ext = ''.docx'' then
        (case Document lib filepath of
           Inl e \<Rightarrow> Inl e
         | Inr doc \<Rightarrow> Inr (Some (join [CHR 0x0A] (paragraphs doc))))
      else if ext = ''.pdf'' then
        (case pdfplumber_open lib filepath of
           Inl e \<Rightarrow> Inl e
         | Inr d \<Rightarrow>
             (case pages_text (pages d) of
                Inl e \<Rightarrow> Inl e
              | Inr ts \<Rightarrow> Inr (Some (join [CHR 0x0A] ts))))
      else if ext = ''.pptx'' then
        (case Presentation lib filepath of
           Inl e \<Rightarrow> Inl e
         | Inr prs \<Rightarrow> Inr (Some (join [CHR 0x0A] (slides_text (slides prs)))))
      else if ext \<in> set [''.png'', ''.jpg'', ''.jpeg''] then
        (case Image_open lib filepath of
           Inl e \<Rightarrow> Inl e
         | Inr img \<Rightarrow> (case image_to_string img of Inl e \<Rightarrow> Inl e | Inr t \<Rightarrow> Inr (Some t)))
      else Inr None)"

definition extract_text_from_file :: "library \<Rightarrow> string \<Rightarrow> (exn + string) \<times> printed list" where
  "extract_text_from_file lib filepath =
     (let ext = lower (splitext_ext filepath);
          text = []
      in case decode lib ext filepath of
           Inl e \<Rightarrow> (Inr (strip text), [CouldNotRead filepath e])
         | Inr None \<Rightarrow> (Inr (strip text), [])
         | Inr (Some t) \<Rightarrow> (Inr (strip t), []))"

section \<open>start_quiz\<close>

text \<open>
  The console is the list of the lines still to be typed; \<^verbatim>\<open>input\<close> on the empty list
  raises EOFError.
\<close>

definition acquire_text ::
    "library \<Rightarrow> string list \<Rightarrow> (exn + string option) \<times> printed list \<times> string list" where
  \<comment> \<open>Lines 126 to 139: \<open>Inr (Some text_data)\<close>, or \<open>Inr None\<close> when the function returns early.\<close>
  "acquire_text lib inp =
     (case inp of
        [] \<Rightarrow> (Inl EOFError, [Title, AskChoice], [])
      | l1 # inp1 \<Rightarrow>
          if strip l1 = ''1'' then
            (case inp1 of
               [] \<Rightarrow> (Inl EOFError, [Title, AskChoice, AskText], [])
             | l2 # inp2 \<Rightarrow> (Inr (Some l2), [Title, AskChoice, AskText], inp2))
          else if strip l1 = ''2'' then
            (case inp1 of
               [] \<Rightarrow> (Inl EOFError, [Title, AskChoice, AskPath], [])
             | l2 # inp2 \<Rightarrow>
                 if \<not> path_exists lib (strip l2)
                 then (Inr None, [Title, AskChoice, AskPath, FileNotFound], inp2)
                 else
                   (case extract_text_from_file lib (strip l2) of
                      (Inl e, out) \<Rightarrow> (Inl e, [Title, AskChoice, AskPath] @ out, inp2)
                    | (Inr text_data, out) \<Rightarrow>
                        if text_data = []
                        then (Inr None, [Title, AskChoice, AskPath] @ out @ [NoTextRead], inp2)
                        else (Inr (Some text_data), [Title, AskChoice, AskPath] @ out, inp2)))
          else (Inr None, [Title, AskChoice, InvalidChoice], inp1))"

fun generate_questions ::
    "gen_model option \<Rightarrow> string list \<Rightarrow> string \<Rightarrow> rng \<Rightarrow> (exn + quiz_question list) \<times> rng" where
  \<comment> \<open>The list comprehension of line 144, over the entities it is given.\<close>
  "generate_questions text_generator [] material r = (Inr [], r)"
| "generate_questions text_generator (ent # ents) material r =
     (case generate_quiz_question text_generator ent material r of
        (Inl e, r') \<Rightarrow> (Inl e, r')
      | (Inr q, r') \<Rightarrow>
          (case generate_questions text_generator ents material r' of
             (Inl e, r'') \<Rightarrow> (Inl e, r'')
           | (Inr qs, r'') \<Rightarrow> (Inr (q # qs), r'')))"

definition prepare_quiz ::
    "ner_model option \<Rightarrow> gen_model option \<Rightarrow> string \<Rightarrow> rng \<Rightarrow>
       (exn + string list \<times> knowledge_graph \<times> quiz_question list) \<times> rng" where
  \<comment> \<open>Lines 142 to 144: \<open>entities\<close>, \<open>knowledge_graph\<close> and \<open>quiz_questions\<close>.\<close>
  "prepare_quiz nlp text_generator text_data r =
     (case extract_entities nlp text_data r of
        (Inl e, r1) \<Rightarrow> (Inl e, r1)
      | (Inr entities, r1) \<Rightarrow>
          (case build_knowledge_graph entities r1 of
             (Inl e, r2) \<Rightarrow> (Inl e, r2)
           | (Inr kg, r2) \<Rightarrow>
               (case generate_questions text_generator (take 10 entities) text_data r2 of
                  (Inl e, r3) \<Rightarrow> (Inl e, r3)
                | (Inr quiz_questions, r3) \<Rightarrow> (Inr (entities, kg, quiz_questions), r3))))"

fun quiz_loop ::
    "nat \<Rightarrow> quiz_question list \<Rightarrow> string list \<Rightarrow> exn option \<times> printed list \<times> string list" where
  \<comment> \<open>The loop of lines 147 to 156 from the question numbered \<open>idx\<close> on: the exception that
      ends it (if any), what it prints, and the console lines left.\<close>
  "quiz_loop idx [] inp = (None, [], inp)"
| "quiz_loop idx (q # qs) inp =
     (let shown = QuestionLine idx (question q) # map OptionLine (options q) @ [AskAnswer] in
      case inp of
        [] \<Rightarrow> (Some EOFError, shown, [])
      | l # inp' \<Rightarrow>
          (let ans = upper (strip l) in
           if ans = ''EXIT'' then (None, shown, inp')
           else
             (case quiz_loop (Suc idx) qs inp' of
                (res, out, inp'') \<Rightarrow>
                  (res, shown @ [if ans = answer q then Correct else Incorrect (answer q)] @ out,
                   inp''))))"

definition start_quiz ::
    "ner_model option \<Rightarrow> gen_model option \<Rightarrow> library \<Rightarrow> string list \<Rightarrow> rng \<Rightarrow>
       exn option \<times> printed list" where
  "start_quiz nlp text_generator lib inp r =
     (case acquire_text lib inp of
        (Inl e, out, inp1) \<Rightarrow> (Some e, out)
      | (Inr None, out, inp1) \<Rightarrow> (None, out)
      | (Inr (Some text_data), out, inp1) \<Rightarrow>
          (case prepare_quiz nlp text_generator text_data r of
             (Inl e, r1) \<Rightarrow> (Some e, out @ [Generating])
           | (Inr (entities, kg, quiz_questions), r1) \<Rightarrow>
               (case quiz_loop 1 quiz_questions inp1 of
                  (Some e, shown, inp2) \<Rightarrow> (Some e, out @ [Generating, QuizStarted] @ shown)
                | (None, shown, inp2) \<Rightarrow>
                    (None, out @ [Generating, QuizStarted] @ shown @ [QuizFinished, GraphTitle]
                           @ map (\<lambda>(k, v). GraphLine k v) kg))))"



text \<open>
  The wording of the specification for a failure in a branch of the decoding: a call that the
  branch of the extension makes raises; for a PDF, opening the file or decoding any of its
  pages (by its text layer, or by OCR when it has none).
\<close>

definition decoding_fails :: "library \<Rightarrow> string \<Rightarrow> string \<Rightarrow> bool" where
  "decoding_fails lib ext filepath =
     (if ext \<in> set [''.txt'', ''.java''] then
        (case open_file lib filepath of Inl e \<Rightarrow> True | Inr f \<Rightarrow> isl (read f))
      else if ext = ''.docx'' then isl (Document lib filepath)
      else if ext = ''.pdf'' then
        (case pdfplumber_open lib filepath of
           Inl e \<Rightarrow> True
         | Inr d \<Rightarrow> list_ex (\<lambda>p. isl (page_text p)) (pages d))
      else if ext = ''.pptx'' then isl (Presentation lib filepath)
      else if ext \<in> set [''.png'', ''.jpg'', ''.jpeg''] then
        (case Image_open lib filepath of Inl e \<Rightarrow> True | Inr img \<Rightarrow> isl (image_to_string img))
      else False)"

text \<open>
  An example of files, on which the functions are evaluated below: a text file, a PDF whose
  first page has a text layer and whose second page can be neither read nor rendered, a slide
  deck and an image; no Word file can be opened.
\<close>

definition example_library :: library where
  "example_library =
     \<lparr>path_exists = (\<lambda>p. True),
      open_file = (\<lambda>p. Inr (TextFile (Inr ''  hello world  ''))),
      Document = (\<lambda>p. Inl (LibraryError ''not a Word file'')),
      pdfplumber_open = (\<lambda>p. Inr (Pdf [Page (Inr (Some ''first page'')) (Inl (LibraryError ''unused'')),
                                        Page (Inr None) (Inl (LibraryError ''cannot render''))])),
      Presentation = (\<lambda>p. Inr (Pptx [[Shape (Some ''title''), Shape None], [Shape (Some ''body'')]])),
      Image_open = (\<lambda>p. Inr (Image (Inr ''scanned text'')))\<rparr>"

section \<open>Facts about the library functions\<close>

lemma randbelow_less: "0 < n \<Longrightarrow> fst (randbelow n r) < n"
  by (simp add: randbelow_def split: list.splits)

lemma mset_butlast_last: "xs \<noteq> [] \<Longrightarrow> add_mset (last xs) (mset (butlast xs)) = mset xs"
  by (induction xs) auto

lemma mset_pool_step:
  assumes "j < length pool"
  shows "add_mset (pool ! j) (mset (butlast (pool[j := last pool]))) = mset pool"
proof -
  from assms have ne: "pool \<noteq> []" by auto
  let ?p = "pool[j := last pool]"
  have ne': "?p \<noteq> []" using ne by simp
  have l: "last ?p = last pool"
    using assms ne by (cases "j = length pool - 1") (simp_all add: last_conv_nth)
  have "add_mset (last pool) (mset (butlast ?p)) = mset ?p"
    using mset_butlast_last [OF ne'] l by simp
  also have "\<dots> = add_mset (last pool) (mset pool - {#pool ! j#})"
    using assms by (simp add: mset_update)
  finally have "mset (butlast ?p) = mset pool - {#pool ! j#}" by simp
  moreover have "pool ! j \<in># mset pool" using assms by simp
  ultimately show ?thesis by simp
qed

lemma sample_pool_props:
  "k \<le> length pool \<Longrightarrow>
     length (fst (sample_pool pool k r)) = k \<and> mset (fst (sample_pool pool k r)) \<subseteq># mset pool"
proof (induction k arbitrary: pool r)
  case 0
  then show ?case by simp
next
  case (Suc k)
  obtain j r' where jr: "randbelow (length pool) r = (j, r')" by (cases "randbelow (length pool) r")
  from Suc.prems have pos: "0 < length pool" by (cases pool) simp_all
  have j: "j < length pool" using randbelow_less [OF pos, of r] jr by simp
  let ?p = "butlast (pool[j := last pool])"
  obtain rest r'' where rest: "sample_pool ?p k r' = (rest, r'')" by (cases "sample_pool ?p k r'")
  have "k \<le> length ?p" using Suc.prems by simp
  from Suc.IH [OF this, of r'] rest
  have ih: "length rest = k" "mset rest \<subseteq># mset ?p" by simp_all
  have "add_mset (pool ! j) (mset rest) \<subseteq># add_mset (pool ! j) (mset ?p)"
    using ih(2) by simp
  then have "add_mset (pool ! j) (mset rest) \<subseteq># mset pool"
    using mset_pool_step [OF j] by simp
  then show ?case using jr rest ih(1) by simp
qed

lemma sample_ok:
  assumes "k \<le> length xs"
  shows "\<exists>ys r'. sample xs k r = (Inr ys, r') \<and> length ys = k \<and> mset ys \<subseteq># mset xs"
proof -
  obtain ys r' where s: "sample_pool xs k r = (ys, r')" by (cases "sample_pool xs k r")
  with sample_pool_props [OF assms, of r] have "length ys = k" "mset ys \<subseteq># mset xs" by simp_all
  with s assms show ?thesis by (simp add: sample_def)
qed

subsection \<open>fromkeys keeps the first occurrences\<close>

lemma fromkeys_into_keep_new: "fromkeys_into keys xs = keys @ keep_new (set keys) xs"
  by (induction xs arbitrary: keys) (auto simp: insert_absorb)

lemma keep_new_set: "set (keep_new S xs) = set xs - S"
  by (induction xs arbitrary: S) auto

lemma keep_new_distinct: "distinct (keep_new S xs)"
  by (induction xs arbitrary: S) (auto simp: keep_new_set)

lemma keep_new_positions:
  "keep_new S xs =
     map (\<lambda>i. xs ! i) (filter (\<lambda>i. xs ! i \<notin> S \<union> set (take i xs)) [0..<length xs])"
proof (induction xs arbitrary: S)
  case Nil
  then show ?case by simp
next
  case (Cons x xs)
  have upt: "[0..<length (x # xs)] = 0 # map Suc [0..<length xs]"
    by (simp add: upt_conv_Cons map_Suc_upt del: upt_Suc)
  have tl: "map (\<lambda>i. (x # xs) ! i)
              (filter (\<lambda>i. (x # xs) ! i \<notin> S \<union> set (take i (x # xs))) (map Suc [0..<length xs]))
          = map (\<lambda>i. xs ! i) (filter (\<lambda>i. xs ! i \<notin> insert x S \<union> set (take i xs)) [0..<length xs])"
    by (simp add: filter_map comp_def conj_ac)
  show ?case
  proof (cases "x \<in> S")
    case True
    then have "insert x S = S" by auto
    with True Cons.IH [of S] tl show ?thesis by (simp only: upt keep_new.simps) simp
  next
    case False
    with Cons.IH [of "insert x S"] tl show ?thesis by (simp only: upt keep_new.simps) simp
  qed
qed

lemma fromkeys_first_occurrences: "fromkeys xs = first_occurrences xs"
  by (simp add: fromkeys_def first_occurrences_def fromkeys_into_keep_new keep_new_positions)

lemma fromkeys_distinct: "distinct (fromkeys xs)"
  by (simp add: fromkeys_def fromkeys_into_keep_new keep_new_distinct)

lemma fromkeys_set: "set (fromkeys xs) = set xs"
  by (simp add: fromkeys_def fromkeys_into_keep_new keep_new_set)


section \<open>Facts about shuffling, padding and the knowledge graph\<close>


lemma upt4: "[0..<4] = [0, 1, 2, 3]"
  by (simp add: upt_rec)

lemma shuffle_from_mset: "i < length xs \<Longrightarrow> mset (fst (shuffle_from i xs r)) = mset xs"
proof (induction i arbitrary: xs r)
  case 0
  then show ?case by simp
next
  case (Suc i)
  obtain j r' where jr: "randbelow (Suc (Suc i)) r = (j, r')" by (cases "randbelow (Suc (Suc i)) r")
  have "j < Suc (Suc i)" using randbelow_less [of "Suc (Suc i)" r] jr by simp
  with Suc.prems have j: "j < length xs" by simp
  let ?xs = "xs[Suc i := xs ! j, j := xs ! Suc i]"
  have m: "mset ?xs = mset xs" using Suc.prems j by (simp add: mset_swap)
  have "i < length ?xs" using Suc.prems by simp
  from Suc.IH [OF this, of r'] m jr show ?case by simp
qed

lemma shuffle_mset: "mset (fst (shuffle xs r)) = mset xs"
proof (cases xs)
  case Nil
  then show ?thesis by (simp add: shuffle_def)
next
  case (Cons a list)
  then have "length xs - 1 < length xs" by simp
  then show ?thesis unfolding shuffle_def by (rule shuffle_from_mset)
qed

lemma shuffle_length: "length (fst (shuffle xs r)) = length xs"
  using shuffle_mset [of xs r] by (metis size_mset)

lemma shuffle_set: "set (fst (shuffle xs r)) = set xs"
  using shuffle_mset [of xs r] by (metis set_mset_mset)

lemma pad_distractors_length:
  "pad_distractors ds material ans r = (Inr padded, r') \<Longrightarrow> 3 \<le> length padded"
proof (induction ds material ans r rule: pad_distractors.induct)
  case (1 distractors material ans r)
  show ?case
  proof (cases "length distractors < 3")
    case True
    with "1.prems" "1.IH" show ?thesis
      by (subst (asm) pad_distractors.simps) (auto split: prod.splits sum.splits)
  next
    case False
    with "1.prems" show ?thesis
      by (subst (asm) pad_distractors.simps) simp
  qed
qed


lemma index_of_mem:
  "x \<in> set xs \<Longrightarrow> \<exists>k. index_of x xs = Inr k \<and> k < length xs \<and> xs ! k = x"
  by (induction xs) auto

lemma question_from_model_Inr:
  assumes "question_from_model g entity material r = (Inr q, r')"
  shows "\<exists>gen r1 all_options k.
           g (prompt entity material) r = (Inr gen, r1) \<and>
           length all_options = 4 \<and> k < 4 \<and>
           all_options ! k =
             after_marker ''Answer:'' (map strip (filter (\<lambda>l. strip l \<noteq> []) (splitlines gen))) entity \<and>
           question q =
             after_marker ''Question:'' (map strip (filter (\<lambda>l. strip l \<noteq> []) (splitlines gen))) entity \<and>
           options q = map (\<lambda>i. letters ! i @ '') '' @ all_options ! i) [0..<4] \<and>
           answer q = letters ! k"
proof -
  obtain res r1 where g: "g (prompt entity material) r = (res, r1)"
    by (cases "g (prompt entity material) r")
  with assms obtain gen where res: "res = Inr gen"
    by (cases res) (simp_all add: question_from_model_def)
  define lines where "lines = map strip (filter (\<lambda>l. strip l \<noteq> []) (splitlines gen))"
  define ans where "ans = after_marker ''Answer:'' lines entity"
  define ds where "ds = map strip (filter (\<lambda>d. strip d \<noteq> [])
                      (split_on '','' (after_marker ''Distractors:'' lines [])))"
  obtain pres r2 where p: "pad_distractors ds material ans r1 = (pres, r2)"
    by (cases "pad_distractors ds material ans r1")
  from assms g res p obtain padded where pres: "pres = Inr padded"
    by (cases pres) (simp_all add: question_from_model_def Let_def lines_def ans_def ds_def)
  obtain all_options r3 where s: "shuffle (ans # take 3 padded) r2 = (all_options, r3)"
    by (cases "shuffle (ans # take 3 padded) r2")
  have len3: "3 \<le> length padded" using pad_distractors_length p pres by blast
  have len: "length all_options = 4"
    using shuffle_length [of "ans # take 3 padded" r2] s len3 by simp
  have "ans \<in> set all_options"
    using shuffle_set [of "ans # take 3 padded" r2] s by simp
  from index_of_mem [OF this] obtain k where
    k: "index_of ans all_options = Inr k" "k < length all_options" "all_options ! k = ans"
    by blast
  from assms g res p pres s k(1)
  have q: "q = \<lparr>question = after_marker ''Question:'' lines entity,
                options = map (\<lambda>i. letters ! i @ '') '' @ all_options ! i) [0..<4],
                answer = letters ! k\<rparr>"
    by (simp add: question_from_model_def Let_def lines_def ans_def ds_def)
  show ?thesis
    using g res len k q unfolding lines_def ans_def by auto
qed

lemma update_fresh: "k \<notin> fst ` set al \<Longrightarrow> AList.update k v al = al @ [(k, v)]"
  by (induction al) auto

lemma length_filter_neq:
  "distinct xs \<Longrightarrow> x \<in> set xs \<Longrightarrow> length (filter (\<lambda>e. e \<noteq> x) xs) = length xs - 1"
proof (induction xs)
  case Nil
  then show ?case by simp
next
  case (Cons a xs)
  show ?case
  proof (cases "a = x")
    case True
    with Cons.prems have "filter (\<lambda>e. e \<noteq> x) xs = xs" by (auto simp: filter_id_conv)
    with True show ?thesis by simp
  next
    case False
    with Cons have "length (filter (\<lambda>e. e \<noteq> x) xs) = length xs - 1" "xs \<noteq> []" by auto
    with False show ?thesis by (cases xs) auto
  qed
qed

lemma build_knowledge_graph_loop_ok:
  assumes "distinct entities"
  shows "set rest \<subseteq> set entities \<Longrightarrow> distinct rest \<Longrightarrow> set rest \<inter> fst ` set kg = {} \<Longrightarrow>
     \<exists>new r'. build_knowledge_graph_loop kg entities rest r = (Inr (kg @ new), r') \<and>
        map fst new = rest \<and>
        (\<forall>(k, rel) \<in> set new. length rel = min 3 (length entities - 1) \<and> k \<notin> set rel \<and>
            set rel \<subseteq> set entities)"
proof (induction rest arbitrary: kg r)
  case Nil
  then show ?case by simp
next
  case (Cons ent rest)
  let ?others = "filter (\<lambda>e. e \<noteq> ent) entities"
  let ?n = "min 3 (length entities - 1)"
  from Cons.prems have mem: "ent \<in> set entities" by simp
  have "?n \<le> length ?others" using length_filter_neq [OF assms mem] by simp
  from sample_ok [OF this, of r] obtain related r1 where
    s: "sample ?others ?n r = (Inr related, r1)" and l: "length related = ?n"
    and m: "mset related \<subseteq># mset ?others" by blast
  from m have sub: "set related \<subseteq> set ?others" by (metis set_mset_mono set_mset_mset)
  have fresh: "ent \<notin> fst ` set kg" using Cons.prems by auto
  let ?kg = "kg @ [(ent, related)]"
  have "set rest \<subseteq> set entities" "distinct rest" "set rest \<inter> fst ` set ?kg = {}"
    using Cons.prems by auto
  from Cons.IH [OF this, of r1] obtain new r' where
    ih: "build_knowledge_graph_loop ?kg entities rest r1 = (Inr (?kg @ new), r')"
        "map fst new = rest"
        "\<forall>(k, rel) \<in> set new. length rel = ?n \<and> k \<notin> set rel \<and> set rel \<subseteq> set entities"
    by blast
  have "build_knowledge_graph_loop kg entities (ent # rest) r = (Inr (kg @ (ent, related) # new), r') \<and>
        map fst ((ent, related) # new) = ent # rest \<and>
        (\<forall>(k, rel) \<in> set ((ent, related) # new).
            length rel = ?n \<and> k \<notin> set rel \<and> set rel \<subseteq> set entities)"
    using s ih l sub by (auto simp: update_fresh [OF fresh])
  then have "\<exists>r'. build_knowledge_graph_loop kg entities (ent # rest) r = (Inr (kg @ (ent, related) # new), r') \<and>
        map fst ((ent, related) # new) = ent # rest \<and>
        (\<forall>(k, rel) \<in> set ((ent, related) # new).
            length rel = ?n \<and> k \<notin> set rel \<and> set rel \<subseteq> set entities)"
    by (rule exI)
  then show ?case by (rule exI)
qed


section \<open>Claims about extract_entities\<close>

text \<open>
  Claim C4. The list \<open>extract_entities\<close> returns has no duplicates, and its elements stand in
  the order of their first occurrence in the list of the NER results followed by the padding.
\<close>

theorem extract_entities_dedup:
  assumes "extract_entities nlp text r = (Inr es, r')"
  shows "\<exists>combined. collect_entities nlp text r = (Inr combined, r') \<and>
           es = first_occurrences combined \<and> distinct es \<and> set es = set combined"
  using assms
  by (auto simp: extract_entities_def fromkeys_first_occurrences [symmetric] fromkeys_distinct
        fromkeys_set split: prod.splits sum.splits)

theorem extract_entities_dedup_witness:
  "extract_entities (Some (\<lambda>t. Inr [''Ada'', ''Bob'', ''Ada''])) ''Ada met Bob; Ada left'' [0, 0]
     = (Inr [''Ada'', ''Bob'', ''Bob;'', ''left''], []) \<and>
   (\<exists>combined. collect_entities (Some (\<lambda>t. Inr [''Ada'', ''Bob'', ''Ada'']))
                  ''Ada met Bob; Ada left'' [0, 0] = (Inr combined, []) \<and>
      [''Ada'', ''Bob'', ''Bob;'', ''left''] = first_occurrences combined \<and>
      distinct [''Ada'', ''Bob'', ''Bob;'', ''left''] \<and>
      set [''Ada'', ''Bob'', ''Bob;'', ''left''] = set combined)"
proof -
  have e: "extract_entities (Some (\<lambda>t. Inr [''Ada'', ''Bob'', ''Ada''])) ''Ada met Bob; Ada left'' [0, 0]
     = (Inr [''Ada'', ''Bob'', ''Bob;'', ''left''], [])"
    by (simp add: extract_entities_def collect_entities_def split_ws_def isspace_def sample_def
          randbelow_def fromkeys_def eval_nat_numeral)
  from extract_entities_dedup [OF e] e show ?thesis by (rule_tac conjI)
qed



section \<open>Claims about generate_quiz_question\<close>

text \<open>
  Claim C1. For every entity, material, generator and outcome of the random draws,
  \<open>generate_quiz_question\<close> returns a dict with exactly four options, labelled
  \<open>A) \<close>, \<open>B) \<close>, \<open>C) \<close>, \<open>D) \<close> in this order; its answer is one of the four letters; exactly
  one option carries the label of the answer; and unless the dict is the placeholder, the
  text of that option is the answer parsed from the generated text.
\<close>

theorem generate_quiz_question_options:
  "\<exists>q r' a b c d k.
     generate_quiz_question text_generator entity material r = (Inr q, r') \<and>
     options q = [''A) '' @ a, ''B) '' @ b, ''C) '' @ c, ''D) '' @ d] \<and>
     k < 4 \<and> answer q = letters ! k \<and>
     (\<exists>!i. i < length (options q) \<and> take 3 (options q ! i) = answer q @ '') '') \<and>
     (q = placeholder entity \<or>
      (\<exists>g gen r1. text_generator = Some g \<and> g (prompt entity material) r = (Inr gen, r1) \<and>
         [a, b, c, d] ! k =
           after_marker ''Answer:'' (map strip (filter (\<lambda>l. strip l \<noteq> []) (splitlines gen))) entity))"
proof -
  have uniq: "\<exists>!i. i < length [''A) '' @ a, ''B) '' @ b, ''C) '' @ c, ''D) '' @ d] \<and>
                 take 3 ([''A) '' @ a, ''B) '' @ b, ''C) '' @ c, ''D) '' @ d] ! i) = letters ! k @ '') ''"
    if "k < 4" for a b c d :: string and k
  proof -
    from that have "k = 0 \<or> k = 1 \<or> k = 2 \<or> k = 3" by auto
    then show ?thesis
      by (auto simp: letters_def less_Suc_eq nth_Cons' eval_nat_numeral intro!: ex1I [of _ k])
  qed
  have ph: ?thesis if "generate_quiz_question text_generator entity material r = (Inr (placeholder entity), r')" for r'
  proof -
    have "options (placeholder entity) = [''A) '' @ ''Yes'', ''B) '' @ ''No'', ''C) '' @ ''Maybe'', ''D) '' @ ''N/A'']"
      by (simp add: placeholder_def)
    moreover have "answer (placeholder entity) = letters ! 0" by (simp add: placeholder_def letters_def)
    moreover note uniq [of 0 "''Yes''" "''No''" "''Maybe''" "''N/A''"]
    ultimately show ?thesis using that
      by (intro exI [of _ "placeholder entity"] exI [of _ r'] exI [of _ "''Yes''"] exI [of _ "''No''"]
            exI [of _ "''Maybe''"] exI [of _ "''N/A''"] exI [of _ "0::nat"]) simp
  qed
  show ?thesis
  proof (cases text_generator)
    case None
    then show ?thesis by (intro ph [of r]) (simp add: generate_quiz_question_def)
  next
    case (Some g)
    obtain res r' where m: "question_from_model g entity material r = (res, r')"
      by (cases "question_from_model g entity material r")
    show ?thesis
    proof (cases res)
      case (Inl e)
      with Some m show ?thesis by (intro ph [of r']) (simp add: generate_quiz_question_def)
    next
      case (Inr q)
      from question_from_model_Inr [OF m [unfolded Inr]] obtain gen r1 all_options k where
        h: "g (prompt entity material) r = (Inr gen, r1)" "length all_options = 4" "k < 4"
           "all_options ! k =
             after_marker ''Answer:'' (map strip (filter (\<lambda>l. strip l \<noteq> []) (splitlines gen))) entity"
           "options q = map (\<lambda>i. letters ! i @ '') '' @ all_options ! i) [0..<4]"
           "answer q = letters ! k"
        by blast
      from h(2) obtain a b c d where ao: "all_options = [a, b, c, d]"
        by (cases all_options; cases "tl all_options"; cases "tl (tl all_options)";
            cases "tl (tl (tl all_options))") auto
      have o: "options q = [''A) '' @ a, ''B) '' @ b, ''C) '' @ c, ''D) '' @ d]"
        using h(5) ao by (simp add: upt4 letters_def)
      have g: "generate_quiz_question text_generator entity material r = (Inr q, r')"
        using Some m Inr by (simp add: generate_quiz_question_def)
      show ?thesis
        using g o h(3) h(6) uniq [OF h(3), of a b c d] h(1) h(4) Some ao
        by (intro exI [of _ q] exI [of _ r'] exI [of _ a] exI [of _ b] exI [of _ c] exI [of _ d]
              exI [of _ k]) auto
    qed
  qed
qed

theorem generate_quiz_question_options_witness:
  "\<exists>q r' a b c d k.
     generate_quiz_question (Some (\<lambda>p r. (Inr ''no markers here'', r))) ''cat'' ''cat dog bird'' [] = (Inr q, r') \<and>
     options q = [''A) '' @ a, ''B) '' @ b, ''C) '' @ c, ''D) '' @ d] \<and>
     k < 4 \<and> answer q = letters ! k \<and>
     (\<exists>!i. i < length (options q) \<and> take 3 (options q ! i) = answer q @ '') '') \<and>
     (q = placeholder ''cat'' \<or>
      (\<exists>(g :: gen_model) gen r1. Some (\<lambda>p r. (Inr ''no markers here'', r)) = Some g \<and>
         g (prompt ''cat'' ''cat dog bird'') [] = (Inr gen, r1) \<and>
         [a, b, c, d] ! k =
           after_marker ''Answer:'' (map strip (filter (\<lambda>l. strip l \<noteq> []) (splitlines gen))) ''cat''))"
  using generate_quiz_question_options
        [of "Some (\<lambda>p r. (Inr ''no markers here'', r))" "''cat''" "''cat dog bird''" "[]"]
  by simp


section \<open>Claims about build_knowledge_graph\<close>

text \<open>
  Claim C7. For a list of \<open>n\<close> pairwise distinct entities, \<open>build_knowledge_graph\<close> returns a
  dict whose keys are exactly the entities (in their order), and each entity maps to a list
  of \<open>min 3 (n - 1)\<close> entities of the input, none of them the key itself; the empty list
  gives the empty dict, and a single entity maps to the empty list.
\<close>

theorem build_knowledge_graph_distinct:
  assumes "distinct entities"
  shows "\<exists>kg r'. build_knowledge_graph entities r = (Inr kg, r') \<and> map fst kg = entities \<and>
           (\<forall>ent \<in> set entities. \<exists>related. map_of kg ent = Some related \<and>
               length related = min 3 (length entities - 1) \<and> ent \<notin> set related \<and>
               set related \<subseteq> set entities)"
proof -
  from build_knowledge_graph_loop_ok [OF assms, of entities "[]" r] assms
  obtain kg r' where
    b: "build_knowledge_graph entities r = (Inr kg, r')" and k: "map fst kg = entities"
    and p: "\<forall>(k, rel) \<in> set kg. length rel = min 3 (length entities - 1) \<and> k \<notin> set rel \<and>
              set rel \<subseteq> set entities"
    by (auto simp: build_knowledge_graph_def)
  have "\<exists>related. map_of kg ent = Some related \<and>
               length related = min 3 (length entities - 1) \<and> ent \<notin> set related \<and>
               set related \<subseteq> set entities" if "ent \<in> set entities" for ent
  proof -
    from that k obtain rel where r: "(ent, rel) \<in> set kg" by force
    have "distinct (map fst kg)" using k assms by simp
    with r have "map_of kg ent = Some rel" by simp
    with p r show ?thesis by auto
  qed
  with b k show ?thesis by blast
qed

theorem build_knowledge_graph_distinct_witness:
  "(\<exists>r'. build_knowledge_graph [] [5, 7] = (Inr [], r')) \<and>
   (\<exists>r'. build_knowledge_graph [''x''] [5, 7] = (Inr [(''x'', [])], r')) \<and>
   (\<exists>kg r'. build_knowledge_graph [''a'', ''b'', ''c'', ''d'', ''e''] [5, 7] = (Inr kg, r') \<and>
       map fst kg = [''a'', ''b'', ''c'', ''d'', ''e''] \<and>
       (\<exists>related. map_of kg ''c'' = Some related \<and> length related = 3 \<and> ''c'' \<notin> set related))"
proof -
  have 1: "distinct ([] :: string list)" by simp
  have 2: "distinct [''x'']" by simp
  have 3: "distinct [''a'', ''b'', ''c'', ''d'', ''e'']" by simp
  from build_knowledge_graph_distinct [OF 1, of "[5, 7]"]
  have a: "\<exists>r'. build_knowledge_graph [] [5, 7] = (Inr [], r')" by auto
  from build_knowledge_graph_distinct [OF 2, of "[5, 7]"]
  obtain kg r' where x: "build_knowledge_graph [''x''] [5, 7] = (Inr kg, r')" "map fst kg = [''x'']"
    "\<exists>related. map_of kg ''x'' = Some related \<and> length related = 0" by auto
  from x(2) obtain v where "kg = [(''x'', v)]" by (cases kg) auto
  with x(3) have "kg = [(''x'', [])]" by auto
  with x(1) have b: "\<exists>r'. build_knowledge_graph [''x''] [5, 7] = (Inr [(''x'', [])], r')" by auto
  from build_knowledge_graph_distinct [OF 3, of "[5, 7]"]
  have c: "\<exists>kg r'. build_knowledge_graph [''a'', ''b'', ''c'', ''d'', ''e''] [5, 7] = (Inr kg, r') \<and>
       map fst kg = [''a'', ''b'', ''c'', ''d'', ''e''] \<and>
       (\<exists>related. map_of kg ''c'' = Some related \<and> length related = 3 \<and> ''c'' \<notin> set related)"
    by auto
  from a b c show ?thesis by blast
qed

section \<open>Claims about extract_text_from_file and start_quiz\<close>


lemma strip_Nil: "strip [] = []"
  by (simp add: strip_def)





lemma pages_text_fails:
  "list_ex (\<lambda>p. isl (page_text p)) ps \<longleftrightarrow> isl (pages_text ps)"
  by (induction ps) (auto split: sum.splits)

lemma decoding_fails_iff:
  "decoding_fails lib ext filepath \<longleftrightarrow> isl (decode lib ext filepath)"
  by (auto simp: decoding_fails_def decode_def pages_text_fails split: sum.splits)

text \<open>
  Claim C3. \<open>extract_text_from_file\<close> never raises; when a call of the decoding of the file
  fails (for a PDF: at any page, whatever the pages before it gave), the warning is printed and
  the empty string is returned; when none fails, nothing is printed.
\<close>

theorem extract_text_failure_empty:
  "(\<exists>t out. extract_text_from_file lib filepath = (Inr t, out)) \<and>
   (decoding_fails lib (lower (splitext_ext filepath)) filepath \<longrightarrow>
      (\<exists>e. extract_text_from_file lib filepath = (Inr [], [CouldNotRead filepath e]))) \<and>
   (\<not> decoding_fails lib (lower (splitext_ext filepath)) filepath \<longrightarrow>
      snd (extract_text_from_file lib filepath) = [])"
  by (auto simp: decoding_fails_iff extract_text_from_file_def strip_Nil
        split: sum.splits option.splits)












section \<open>Output without the markers\<close>














section \<open>Where failures are caught\<close>

text \<open>
  Claim C2, as amended. A failing call of the decoding is caught inside
  \<open>extract_text_from_file\<close>, which prints the warning and returns the empty text; a failing
  call of the generator is caught inside \<open>generate_quiz_question\<close>, which returns the
  placeholder and prints nothing; neither function raises.
\<close>

theorem failures_caught_by_design:
  "(\<exists>t out. extract_text_from_file lib filepath = (Inr t, out) \<and>
      (decoding_fails lib (lower (splitext_ext filepath)) filepath \<longrightarrow>
         t = [] \<and> (\<exists>e. out = [CouldNotRead filepath e]))) \<and>
   (\<exists>q r'. generate_quiz_question text_generator entity material r = (Inr q, r') \<and>
      (\<forall>g e r1. text_generator = Some g \<and> g (prompt entity material) r = (Inl e, r1) \<longrightarrow>
         q = placeholder entity \<and> r' = r1))"
proof
  show "\<exists>t out. extract_text_from_file lib filepath = (Inr t, out) \<and>
      (decoding_fails lib (lower (splitext_ext filepath)) filepath \<longrightarrow>
         t = [] \<and> (\<exists>e. out = [CouldNotRead filepath e]))"
    by (auto simp: decoding_fails_iff extract_text_from_file_def strip_Nil
          split: sum.splits option.splits)
  show "\<exists>q r'. generate_quiz_question text_generator entity material r = (Inr q, r') \<and>
      (\<forall>g e r1. text_generator = Some g \<and> g (prompt entity material) r = (Inl e, r1) \<longrightarrow>
         q = placeholder entity \<and> r' = r1)"
    by (auto simp: generate_quiz_question_def question_from_model_def
          split: option.splits prod.splits sum.splits)
qed

text \<open>
  Claim C2 as stated fails: \<open>extract_entities\<close> calls the NER pipeline outside any
  \<^verbatim>\<open>try\<close>, so the exception of the pipeline (here spaCy's on a text longer than its
  \<open>max_length\<close> of 1000000 characters) escapes; and a run whose generator fails prints the
  placeholder question and no warning.
\<close>

theorem failures_not_all_caught_counterexample:
  "extract_entities (Some (\<lambda>t. if 1000000 < length t then Inl (LibraryError ''E088'') else Inr []))
      (replicate 1000001 (CHR ''a'')) []
     = (Inl (LibraryError ''E088''), []) \<and>
   start_quiz None (Some (\<lambda>p r. (Inl (LibraryError ''generation failed''), r))) example_library
      [''1'', ''cats purr'', ''exit''] []
     = (None, [Title, AskChoice, AskText, Generating, QuizStarted,
               QuestionLine 1 ''cats'', OptionLine ''A) Yes'', OptionLine ''B) No'',
               OptionLine ''C) Maybe'', OptionLine ''D) N/A'', AskAnswer,
               QuizFinished, GraphTitle, GraphLine ''cats'' [''purr''], GraphLine ''purr'' [''cats'']])"
proof
  show "extract_entities (Some (\<lambda>t. if 1000000 < length t then Inl (LibraryError ''E088'') else Inr []))
      (replicate 1000001 (CHR ''a'')) [] = (Inl (LibraryError ''E088''), [])"
    by (simp add: extract_entities_def collect_entities_def)
  show "start_quiz None (Some (\<lambda>p r. (Inl (LibraryError ''generation failed''), r))) example_library
      [''1'', ''cats purr'', ''exit''] []
     = (None, [Title, AskChoice, AskText, Generating, QuizStarted,
               QuestionLine 1 ''cats'', OptionLine ''A) Yes'', OptionLine ''B) No'',
               OptionLine ''C) Maybe'', OptionLine ''D) N/A'', AskAnswer,
               QuizFinished, GraphTitle, GraphLine ''cats'' [''purr''], GraphLine ''purr'' [''cats'']])"
    by code_simp
qed

theorem failures_caught_by_design_witness:
  "(\<exists>t out. extract_text_from_file example_library ''/home/me/notes.pdf'' = (Inr t, out) \<and>
      t = [] \<and> (\<exists>e. out = [CouldNotRead ''/home/me/notes.pdf'' e])) \<and>
   (\<exists>q r'. generate_quiz_question (Some (\<lambda>p r. (Inl (LibraryError ''generation failed''), r)))
              ''cats'' ''cats purr'' [2] = (Inr q, r') \<and> q = placeholder ''cats'' \<and> r' = [2])"
proof -
  have e: "lower (splitext_ext ''/home/me/notes.pdf'') = ''.pdf''"
    by (simp add: splitext_ext_def lower_def lower_char_def)
  have f: "decoding_fails example_library ''.pdf'' ''/home/me/notes.pdf''"
    by (simp add: decoding_fails_def example_library_def page_text_def)
  from failures_caught_by_design
    [of example_library "''/home/me/notes.pdf''"
        "Some (\<lambda>p r. (Inl (LibraryError ''generation failed''), r))" "''cats''" "''cats purr''" "[2]"]
    e f
  show ?thesis by auto
qed

section \<open>The claims at concrete inputs\<close>


theorem extract_text_failure_empty_witness:
  "decoding_fails example_library ''.pdf'' ''/home/me/notes.pdf'' \<and>
   (\<exists>e. extract_text_from_file example_library ''/home/me/notes.pdf''
          = (Inr [], [CouldNotRead ''/home/me/notes.pdf'' e])) \<and>
   snd (extract_text_from_file example_library ''/home/me/notes.TXT'') = []"
proof -
  have e: "lower (splitext_ext ''/home/me/notes.pdf'') = ''.pdf''"
    by (simp add: splitext_ext_def lower_def lower_char_def)
  have e': "lower (splitext_ext ''/home/me/notes.TXT'') = ''.txt''"
    by (simp add: splitext_ext_def lower_def lower_char_def)
  have f: "decoding_fails example_library ''.pdf'' ''/home/me/notes.pdf''"
    by (simp add: decoding_fails_def example_library_def page_text_def)
  have f': "\<not> decoding_fails example_library ''.txt'' ''/home/me/notes.TXT''"
    by (simp add: decoding_fails_def example_library_def)
  from extract_text_failure_empty [of example_library "''/home/me/notes.pdf''"] e f
  have 1: "\<exists>e. extract_text_from_file example_library ''/home/me/notes.pdf''
          = (Inr [], [CouldNotRead ''/home/me/notes.pdf'' e])" by simp
  from extract_text_failure_empty [of example_library "''/home/me/notes.TXT''"] e' f'
  have 2: "snd (extract_text_from_file example_library ''/home/me/notes.TXT'') = []" by simp
  from f 1 2 show ?thesis by blast
qed



end
